theory Spec2Isabelle
  imports Complex_Main "HOL-Library.Word"
begin

section \<open>Data model (src/types.ts and the state of useLiveSession)\<close>

text \<open>
  Values of TypeScript type \<open>any\<close>: the arguments of a tool call and the results
  handed back are JSON values. \<open>JUndefined\<close> is what reading a missing property
  yields. Numbers are the reals that the doubles denote.
\<close>

datatype json =
    JUndefined
  | JNull
  | JBool bool
  | JNum real
  | JStr string
  | JArr "json list"
  | JObj "(string \<times> json) list"

text \<open>Property access \<open>o.k\<close> on an object: a missing key reads as \<open>undefined\<close>.\<close>

definition getProp :: "(string \<times> json) list \<Rightarrow> string \<Rightarrow> json" where
  "getProp obj k = (case map_of obj k of None \<Rightarrow> JUndefined | Some v \<Rightarrow> v)"

text \<open>The truthiness test of \<open>c ? a : b\<close>.\<close>

fun truthy :: "json \<Rightarrow> bool" where
  "truthy JUndefined = False"
| "truthy JNull = False"
| "truthy (JBool b) = b"
| "truthy (JNum n) = (n \<noteq> 0)"
| "truthy (JStr s) = (s \<noteq> [])"
| "truthy (JArr xs) = True"
| "truthy (JObj kvs) = True"

datatype ConnectionState = DISCONNECTED | CONNECTING | CONNECTED | ERROR

text \<open>
  \<open>SystemState\<close>. The fields that the tools write receive \<open>args.level\<close>,
  \<open>args.state\<close> and \<open>args.appName\<close> unchecked, so they hold whatever JSON value
  arrived; \<open>activeApp = JNull\<close> is the home screen.
\<close>

record SystemState =
  brightness :: json
  flashlight :: json
  batteryLevel :: real
  wifi :: json
  bluetooth :: bool
  volume :: real
  activeApp :: json

datatype Role = User | Model | System

text \<open>
  \<open>LogMessage\<close>: role and text. The \<open>timestamp\<close> field is the wall clock read when
  the entry is appended; nothing below depends on it and it is left out.
\<close>

record LogMessage =
  log_role :: Role
  log_text :: string

record FunctionCall =
  fc_id :: string
  fc_name :: string
  fc_args :: "(string \<times> json) list"

record FunctionResponse =
  fr_id :: string
  fr_name :: string
  fr_response :: json

text \<open>
  The decoder \<open>decodeAudioData\<close> lives in utils/audioUtils. An inbound audio payload
  is represented by what decoding it gives: a buffer of some duration (seconds), or an
  exception.
\<close>

datatype AudioChunk = Decoded real | Undecodable

text \<open>
  \<open>LiveServerMessage\<close>, the fields that \<open>onmessage\<close> reads. A transcription is
  \<open>Some t\<close> when the object is present, \<open>t\<close> being its \<open>text\<close> property
  (\<open>None\<close> when that is \<open>undefined\<close>). \<open>audio = None\<close> stands for a missing
  or empty \<open>inlineData.data\<close>.
\<close>

record LiveServerMessage =
  inputTranscription :: "string option option"
  outputTranscription :: "string option option"
  turnComplete :: bool
  audio :: "AudioChunk option"
  interrupted :: bool
  toolCall :: "FunctionCall list option"

text \<open>Calls made on output sources, in the order they are made.\<close>

datatype AudioCall = Start nat real real | Stop nat

text \<open>
  A ref to a browser object (audio context, microphone stream, processor node, session
  promise): still \<open>null\<close>, holding an object in use, or holding one that has been
  closed, stopped or disconnected.
\<close>

datatype Ref = Unset | Live | Released

text \<open>The exceptions a run of \<open>onmessage\<close> can end with.\<close>

datatype JsError = DecodeError

text \<open>
  The state owned by the hook: its \<open>useState\<close> cells, its refs, the
  \<open>SystemState\<close> cell behind \<open>setSystemState\<close>, the identity counter of the
  output sources created so far, the calls made on them, and the tool-response batches
  handed to the session.
\<close>

record hook =
  connectionState :: ConnectionState
  logs :: "LogMessage list"
  volumeLevel :: real
  errorMessage :: "string option"
  audioContextRef :: Ref
  mediaStreamRef :: Ref
  processorRef :: Ref
  sessionRef :: Ref
  nextStartTime :: real
  audioSources :: "nat list"
  currentInputTranscription :: string
  currentOutputTranscription :: string
  device :: SystemState
  sourceCount :: nat
  audioCalls :: "AudioCall list"
  toolResponses :: "FunctionResponse list list"

text \<open>
  What the JavaScript host provides to the tool handler: the string conversion of
  template literals (\<open>toStr\<close>), \<open>JSON.stringify\<close>, and the battery sensor behind
  \<open>navigator.getBattery\<close> (absent, failing, or reporting a level in \<open>[0,1]\<close>).
\<close>

datatype Battery = NoSensor | SensorFails | SensorLevel real

record host =
  toStr :: "json \<Rightarrow> string"
  stringify :: "json \<Rightarrow> string"
  getBattery :: Battery

section \<open>Outbound PCM conversion (onaudioprocess)\<close>

text \<open>\<open>Math.max(-1, Math.min(1, x))\<close>, then the scaling by \<open>0x8000\<close> or \<open>0x7fff\<close>.\<close>

definition clamp_and_scale :: "real \<Rightarrow> real" where
  "clamp_and_scale x =
     (let s = max (- 1) (min 1 x)
      in if s < 0 then s * 32768 else s * 32767)"

text \<open>Storing a number into an \<open>Int16Array\<close>: truncate towards zero, wrap to 16 bits.\<close>

definition js_trunc :: "real \<Rightarrow> int" where
  "js_trunc v = (if v < 0 then \<lceil>v\<rceil> else \<lfloor>v\<rfloor>)"

definition toInt16 :: "real \<Rightarrow> 16 word" where
  "toInt16 v = word_of_int (js_trunc v)"

definition pcmData :: "real list \<Rightarrow> 16 word list" where
  "pcmData inputData = map (\<lambda>x. toInt16 (clamp_and_scale x)) inputData"

text \<open>Reading a 16-bit code back with the scale it was written with.\<close>

definition pcmToFloat :: "16 word \<Rightarrow> real" where
  "pcmToFloat w = (if sint w < 0 then real_of_int (sint w) / 32768
                   else real_of_int (sint w) / 32767)"

section \<open>The tool handler (executeTool)\<close>

definition addLog :: "Role \<Rightarrow> string \<Rightarrow> hook \<Rightarrow> hook" where
  "addLog r t s = s\<lparr>logs := logs s @ [\<lparr>log_role = r, log_text = t\<rparr>]\<rparr>"

definition setSystemState :: "(SystemState \<Rightarrow> SystemState) \<Rightarrow> hook \<Rightarrow> hook" where
  "setSystemState f s = s\<lparr>device := f (device s)\<rparr>"

text \<open>\<open>Math.round\<close>: the nearest integer, halves upwards.\<close>

definition Math_round :: "real \<Rightarrow> real" where
  "Math_round x = of_int \<lfloor>x + 1 / 2\<rfloor>"

text \<open>
  \<open>executeTool h systemState name args\<close>. \<open>systemState\<close> is the snapshot the
  callback closes over (only \<open>checkBattery\<close> reads it); the updates go through
  \<open>setSystemState\<close> to the live cell. The tool declarations give every tool
  parameters of type OBJECT, so \<open>args\<close> is an object. Template literals use the
  host's \<open>toStr\<close>, the log lines its \<open>stringify\<close>. The \<open>try/catch\<close> around the
  sensor read makes its failure a branch.
\<close>

definition executeTool ::
  "host \<Rightarrow> SystemState \<Rightarrow> string \<Rightarrow> (string \<times> json) list \<Rightarrow> hook \<Rightarrow> json \<times> hook" where
  "executeTool h systemState name args s =
     (let s1 = addLog System
                 (''> Executing: '' @ name @ '' ('' @ stringify h (JObj args) @ '')'') s;
          (result, s2) =
            (if name = ''setBrightness'' then
               (JObj [(''status'',
                   JStr (''Brightness set to '' @ toStr h (getProp args ''level'') @ ''%''))],
                setSystemState (\<lambda>prev. prev\<lparr>brightness := getProp args ''level''\<rparr>) s1)
             else if name = ''toggleFlashlight'' then
               (JObj [(''status'',
                   JStr (''Flashlight turned '' @
                     (if truthy (getProp args ''state'') then ''ON'' else ''OFF'')))],
                setSystemState (\<lambda>prev. prev\<lparr>flashlight := getProp args ''state''\<rparr>) s1)
             else if name = ''toggleWifi'' then
               (JObj [(''status'',
                   JStr (''Wi-Fi turned '' @
                     (if truthy (getProp args ''state'') then ''ON'' else ''OFF'')))],
                setSystemState (\<lambda>prev. prev\<lparr>wifi := getProp args ''state''\<rparr>) s1)
             else if name = ''checkBattery'' then
               (case getBattery h of
                  SensorLevel l \<Rightarrow> (JObj [(''level'', JNum (Math_round (l * 100)))], s1)
                | NoSensor \<Rightarrow> (JObj [(''level'', JNum (batteryLevel systemState))], s1)
                | SensorFails \<Rightarrow> (JObj [(''level'', JNum (batteryLevel systemState))], s1))
             else if name = ''openApp'' then
               (JObj [(''status'', JStr (''Opened '' @ toStr h (getProp args ''appName'')))],
                setSystemState (\<lambda>prev. prev\<lparr>activeApp := getProp args ''appName''\<rparr>) s1)
             else if name = ''goHome'' then
               (JObj [(''status'', JStr ''Navigated to Home Screen'')],
                setSystemState (\<lambda>prev. prev\<lparr>activeApp := JNull\<rparr>) s1)
             else (JObj [(''success'', JBool True)], s1))
      in (result,
          addLog System
            (''< Completed: '' @ name @ '' | Result: '' @ stringify h result) s2))"

text \<open>The names of \<open>controlPhoneTools\<close>.\<close>

definition controlPhoneTools :: "string list" where
  "controlPhoneTools =
     [''setBrightness'', ''toggleFlashlight'', ''toggleWifi'', ''checkBattery'',
      ''openApp'', ''goHome'']"

section \<open>The inbound message handler (onmessage)\<close>

text \<open>\<open>buf += text\<close>, where an \<open>undefined\<close> text is appended as the word.\<close>

definition appendText :: "string \<Rightarrow> string option \<Rightarrow> string" where
  "appendText buf t = buf @ (case t of None \<Rightarrow> ''undefined'' | Some x \<Rightarrow> x)"

definition handleTranscriptions :: "LiveServerMessage \<Rightarrow> hook \<Rightarrow> hook" where
  "handleTranscriptions m s =
     (let s1 = (case inputTranscription m of
                  None \<Rightarrow> s
                | Some t \<Rightarrow> s\<lparr>currentInputTranscription :=
                               appendText (currentInputTranscription s) t\<rparr>);
          s2 = (case outputTranscription m of
                  None \<Rightarrow> s1
                | Some t \<Rightarrow> s1\<lparr>currentOutputTranscription :=
                                appendText (currentOutputTranscription s1) t\<rparr>)
      in if turnComplete m then
           (let s3 = (if currentInputTranscription s2 \<noteq> [] then
                        (addLog User (currentInputTranscription s2) s2)
                          \<lparr>currentInputTranscription := []\<rparr>
                      else s2)
            in if currentOutputTranscription s3 \<noteq> [] then
                 (addLog Model (currentOutputTranscription s3) s3)
                   \<lparr>currentOutputTranscription := []\<rparr>
               else s3)
         else s2)"

text \<open>
  The audio block. \<open>now\<close> is \<open>outputCtx.currentTime\<close>. The new source gets the next
  identity, is started at the cursor and added to the set; an undecodable payload
  raises out of the handler.
\<close>

definition handleAudioOutput :: "real \<Rightarrow> LiveServerMessage \<Rightarrow> hook \<Rightarrow> JsError + hook" where
  "handleAudioOutput now m s =
     (case audio m of
        None \<Rightarrow> Inr s
      | Some Undecodable \<Rightarrow> Inl DecodeError
      | Some (Decoded d) \<Rightarrow>
          (let cursor = max (nextStartTime s) now;
               source = sourceCount s
           in Inr (s\<lparr>sourceCount := Suc source,
                     audioCalls := audioCalls s @ [Start source cursor d],
                     nextStartTime := cursor + d,
                     audioSources := (if source \<in> set (audioSources s) then audioSources s
                                      else audioSources s @ [source])\<rparr>)))"

definition handleInterruptions :: "LiveServerMessage \<Rightarrow> hook \<Rightarrow> hook" where
  "handleInterruptions m s =
     (if interrupted m then
        (let s1 = addLog System ''Output Interrupted'' s
         in s1\<lparr>audioCalls := audioCalls s1 @ map Stop (audioSources s1),
               audioSources := [],
               nextStartTime := 0\<rparr>)
      else s)"

text \<open>The \<open>for ... of\<close> loop over the batch, pushing one response per call.\<close>

fun forFunctionCalls ::
  "host \<Rightarrow> SystemState \<Rightarrow> FunctionCall list \<Rightarrow> FunctionResponse list \<Rightarrow> hook
     \<Rightarrow> FunctionResponse list \<times> hook" where
  "forFunctionCalls h systemState [] functionResponses s = (functionResponses, s)"
| "forFunctionCalls h systemState (fc # fcs) functionResponses s =
     (let (result, s') = executeTool h systemState (fc_name fc) (fc_args fc) s
      in forFunctionCalls h systemState fcs
           (functionResponses @
              [\<lparr>fr_id = fc_id fc, fr_name = fc_name fc,
                fr_response = JObj [(''result'', result)]\<rparr>]) s')"

definition handleFunctionCalls ::
  "host \<Rightarrow> SystemState \<Rightarrow> LiveServerMessage \<Rightarrow> hook \<Rightarrow> hook" where
  "handleFunctionCalls h systemState m s =
     (case toolCall m of
        None \<Rightarrow> s
      | Some functionCalls \<Rightarrow>
          (let (functionResponses, s') = forFunctionCalls h systemState functionCalls [] s
           in s'\<lparr>toolResponses := toolResponses s' @ [functionResponses]\<rparr>))"

text \<open>
  One run of \<open>onmessage\<close>, taken as a whole (no other callback runs between its
  awaits). The first component is the exception the handler ended with, if any; what it
  had done before stays done.
\<close>

definition onmessage ::
  "host \<Rightarrow> SystemState \<Rightarrow> real \<Rightarrow> LiveServerMessage \<Rightarrow> hook \<Rightarrow> JsError option \<times> hook" where
  "onmessage h systemState now m s =
     (let s1 = handleTranscriptions m s
      in case handleAudioOutput now m s1 of
           Inl e \<Rightarrow> (Some e, s1)
         | Inr s2 \<Rightarrow>
             (None, handleFunctionCalls h systemState m (handleInterruptions m s2)))"

text \<open>
  Messages delivered one after the other at the given clock readings. A run that ends
  with an exception is an unhandled rejection; the next message is delivered all the
  same, to the state that run left.
\<close>

fun onmessages ::
  "host \<Rightarrow> SystemState \<Rightarrow> (real \<times> LiveServerMessage) list \<Rightarrow> hook \<Rightarrow> hook" where
  "onmessages h systemState [] s = s"
| "onmessages h systemState ((now, m) # ms) s =
     onmessages h systemState ms (snd (onmessage h systemState now m s))"

text \<open>\<open>source.onended\<close>: the source leaves the set.\<close>

definition onended :: "nat \<Rightarrow> hook \<Rightarrow> hook" where
  "onended source s = s\<lparr>audioSources := removeAll source (audioSources s)\<rparr>"

section \<open>Session life cycle (connect, its callbacks, disconnect)\<close>

text \<open>How the body of \<open>connect\<close> ends: normally, or in its \<open>catch\<close> with
  \<open>error.message\<close>: before the output context was stored, at the microphone
  request, or when opening the link.\<close>

datatype Init =
    InitOk
  | ContextFails "string option"
  | MicrophoneFails "string option"
  | LinkFails "string option"

text \<open>\<open>msg || 'Unknown error'\<close> and \<open>${msg}\<close> for an optional string.\<close>

definition orUnknown :: "string option \<Rightarrow> string" where
  "orUnknown msg = (case msg of None \<Rightarrow> ''Unknown error''
                    | Some t \<Rightarrow> if t = [] then ''Unknown error'' else t)"

definition interpolate :: "string option \<Rightarrow> string" where
  "interpolate msg = (case msg of None \<Rightarrow> ''undefined'' | Some t \<Rightarrow> t)"

definition catchInit :: "string option \<Rightarrow> hook \<Rightarrow> hook" where
  "catchInit msg s =
     addLog System (''Init Error: '' @ interpolate msg)
       (s\<lparr>errorMessage := Some (''Failed to initialize: '' @ orUnknown msg),
          connectionState := ERROR\<rparr>)"

definition connect :: "Init \<Rightarrow> hook \<Rightarrow> hook" where
  "connect init s =
     (let s1 = s\<lparr>errorMessage := None, connectionState := CONNECTING\<rparr>
      in case init of
           ContextFails msg \<Rightarrow> catchInit msg s1
         | MicrophoneFails msg \<Rightarrow> catchInit msg (s1\<lparr>audioContextRef := Live\<rparr>)
         | LinkFails msg \<Rightarrow>
             catchInit msg (s1\<lparr>audioContextRef := Live, mediaStreamRef := Live\<rparr>)
         | InitOk \<Rightarrow> s1\<lparr>audioContextRef := Live, mediaStreamRef := Live,
                        sessionRef := Live\<rparr>)"

definition onopen :: "hook \<Rightarrow> hook" where
  "onopen s =
     (addLog System ''Link Established. System Online.''
        (s\<lparr>connectionState := CONNECTED\<rparr>))\<lparr>processorRef := Live\<rparr>"

definition onclose :: "hook \<Rightarrow> hook" where
  "onclose s = addLog System ''Link Terminated.'' (s\<lparr>connectionState := DISCONNECTED\<rparr>)"

definition onerror :: "string option \<Rightarrow> hook \<Rightarrow> hook" where
  "onerror msg s =
     addLog System (''Error: '' @ interpolate msg)
       (s\<lparr>errorMessage := Some (''Network Error: '' @ orUnknown msg),
          connectionState := ERROR\<rparr>)"

definition release :: "Ref \<Rightarrow> Ref" where
  "release r = (if r = Unset then Unset else Released)"

definition disconnect :: "hook \<Rightarrow> hook" where
  "disconnect s =
     s\<lparr>sessionRef := release (sessionRef s),
       processorRef := release (processorRef s),
       mediaStreamRef := release (mediaStreamRef s),
       audioContextRef := release (audioContextRef s),
       connectionState := DISCONNECTED,
       volumeLevel := 0\<rparr>"

text \<open>The initial values of the \<open>useState\<close> cells and refs, and App's phone state.\<close>

definition useLiveSession :: "SystemState \<Rightarrow> hook" where
  "useLiveSession systemState =
     \<lparr>connectionState = DISCONNECTED, logs = [], volumeLevel = 0, errorMessage = None,
      audioContextRef = Unset, mediaStreamRef = Unset, processorRef = Unset,
      sessionRef = Unset, nextStartTime = 0, audioSources = [],
      currentInputTranscription = [], currentOutputTranscription = [],
      device = systemState, sourceCount = 0, audioCalls = [], toolResponses = []\<rparr>"

definition App_systemState :: SystemState where
  "App_systemState =
     \<lparr>brightness = JNum 100, flashlight = JBool False, batteryLevel = 84,
      wifi = JBool True, bluetooth = True, volume = 50, activeApp = JNull\<rparr>"

section \<open>Concrete inputs and schedules used in the statements\<close>

text \<open>A message with every field absent.\<close>

definition emptyMessage :: LiveServerMessage where
  "emptyMessage =
     \<lparr>inputTranscription = None, outputTranscription = None, turnComplete = False,
      audio = None, interrupted = False, toolCall = None\<rparr>"

text \<open>A host without battery sensor that renders strings as they are and any other
  value as the empty string; used where a statement needs a concrete host.\<close>

definition plainHost :: host where
  "plainHost =
     \<lparr>toStr = (\<lambda>v. case v of JStr t \<Rightarrow> t | _ \<Rightarrow> []),
      stringify = (\<lambda>v. case v of JStr t \<Rightarrow> t | _ \<Rightarrow> []),
      getBattery = NoSensor\<rparr>"

text \<open>The durations of the chunks that a list of timed messages carries, in order.\<close>

fun chunkDurations :: "(real \<times> LiveServerMessage) list \<Rightarrow> real list" where
  "chunkDurations [] = []"
| "chunkDurations ((now, m) # ms) =
     (case audio m of
        Some (Decoded d) \<Rightarrow> d # chunkDurations ms
      | _ \<Rightarrow> chunkDurations ms)"

text \<open>
  The schedule in the words of the specification: sources numbered from \<open>n\<close>, the
  first starting at \<open>c\<close>, each next one where the one before it ends.
\<close>

fun gaplessFrom :: "nat \<Rightarrow> real \<Rightarrow> real list \<Rightarrow> AudioCall list" where
  "gaplessFrom n c [] = []"
| "gaplessFrom n c (d # ds) = Start n c d # gaplessFrom (Suc n) (c + d) ds"

text \<open>The two log lines that one tool execution writes.\<close>

definition toolLog :: "host \<Rightarrow> string \<Rightarrow> (string \<times> json) list \<Rightarrow> json \<Rightarrow> LogMessage list" where
  "toolLog h name args result =
     [\<lparr>log_role = System,
       log_text = ''> Executing: '' @ name @ '' ('' @ stringify h (JObj args) @ '')''\<rparr>,
      \<lparr>log_role = System,
       log_text = ''< Completed: '' @ name @ '' | Result: '' @ stringify h result\<rparr>]"

text \<open>The entry that the loop pushes for one call, its result computed in state \<open>s\<close>.\<close>

definition respond :: "host \<Rightarrow> SystemState \<Rightarrow> hook \<Rightarrow> FunctionCall \<Rightarrow> FunctionResponse" where
  "respond h systemState s fc =
     \<lparr>fr_id = fc_id fc, fr_name = fc_name fc,
      fr_response =
        JObj [(''result'', fst (executeTool h systemState (fc_name fc) (fc_args fc) s))]\<rparr>"

section \<open>Outbound PCM conversion: properties\<close>

lemma scaled_range: "- 32768 \<le> clamp_and_scale x \<and> clamp_and_scale x \<le> 32767"
  unfolding clamp_and_scale_def Let_def by (auto simp: max_def min_def)

lemma js_trunc_range:
  assumes "- 32768 \<le> v" "v \<le> 32767"
  shows "- 32768 \<le> js_trunc v \<and> js_trunc v \<le> 32767"
proof (cases "v < 0")
  case True
  have "\<lceil>v\<rceil> \<le> 0" using True by (simp add: ceiling_le_iff)
  moreover have "- 32768 \<le> \<lceil>v\<rceil>" using assms(1) by (simp add: le_ceiling_iff)
  ultimately show ?thesis using True by (simp add: js_trunc_def)
next
  case False
  have "0 \<le> \<lfloor>v\<rfloor>" using False by (simp add: le_floor_iff)
  moreover have "\<lfloor>v\<rfloor> \<le> 32767" using assms(2) by (simp add: floor_le_iff)
  ultimately show ?thesis using False by (simp add: js_trunc_def)
qed

text \<open>After clamping, the store into the Int16Array never wraps.\<close>

lemma sint_toInt16: "sint (toInt16 (clamp_and_scale x)) = js_trunc (clamp_and_scale x)"
proof -
  have r: "- 32768 \<le> js_trunc (clamp_and_scale x) \<and> js_trunc (clamp_and_scale x) \<le> 32767"
    using scaled_range [of x] by (intro js_trunc_range) auto
  have "signed_take_bit 15 (js_trunc (clamp_and_scale x)) = js_trunc (clamp_and_scale x)"
    using r by (intro signed_take_bit_int_eq_self) auto
  then show ?thesis by (simp add: toInt16_def sint_sbintrunc')
qed

lemma pcmData_nth:
  "length (pcmData inputData) = length inputData
   \<and> (i < length inputData \<longrightarrow>
        sint (pcmData inputData ! i) = js_trunc (clamp_and_scale (inputData ! i)))"
  by (simp add: pcmData_def sint_toInt16)

lemma js_trunc_error: "\<bar>real_of_int (js_trunc v) - v\<bar> < 1"
  unfolding js_trunc_def by (cases "v < 0") (simp_all, linarith+)

lemma roundtrip_neg:
  assumes "- 1 \<le> x" "x < 0"
  shows "\<bar>pcmToFloat (toInt16 (clamp_and_scale x)) - x\<bar> < 1 / 32768"
proof -
  have v: "clamp_and_scale x = x * 32768"
    using assms by (simp add: clamp_and_scale_def Let_def max_def min_def)
  define q where "q = \<lceil>x * 32768\<rceil>"
  have sq: "sint (toInt16 (clamp_and_scale x)) = q"
    using assms sint_toInt16 [of x] unfolding v by (simp add: js_trunc_def q_def mult_neg_pos)
  have q1: "x * 32768 \<le> real_of_int q" and q2: "real_of_int q < x * 32768 + 1"
    unfolding q_def by linarith+
  have q0: "q \<le> 0"
    unfolding q_def using assms by (simp add: ceiling_le_iff mult_neg_pos less_imp_le)
  show ?thesis
  proof (cases "q < 0")
    case True
    then have "pcmToFloat (toInt16 (clamp_and_scale x)) = real_of_int q / 32768"
      by (simp add: pcmToFloat_def sq)
    then show ?thesis using q1 q2 by (simp add: abs_less_iff field_simps)
  next
    case False
    then have "q = 0" using q0 by simp
    then have "pcmToFloat (toInt16 (clamp_and_scale x)) = 0"
      by (simp add: pcmToFloat_def sq)
    then show ?thesis using q1 q2 \<open>q = 0\<close> assms by (simp add: abs_less_iff field_simps)
  qed
qed

lemma roundtrip_nonneg:
  assumes "0 \<le> x" "x \<le> 1"
  shows "\<bar>pcmToFloat (toInt16 (clamp_and_scale x)) - x\<bar> < 1 / 32767"
proof -
  have v: "clamp_and_scale x = x * 32767"
    using assms by (simp add: clamp_and_scale_def Let_def max_def min_def)
  define q where "q = \<lfloor>x * 32767\<rfloor>"
  have sq: "sint (toInt16 (clamp_and_scale x)) = q"
    using assms sint_toInt16 [of x] unfolding v by (simp add: js_trunc_def q_def not_less)
  have q1: "real_of_int q \<le> x * 32767" and q2: "x * 32767 < real_of_int q + 1"
    unfolding q_def by linarith+
  have q0: "0 \<le> q" unfolding q_def using assms by (simp add: le_floor_iff)
  then have "pcmToFloat (toInt16 (clamp_and_scale x)) = real_of_int q / 32767"
    by (simp add: pcmToFloat_def sq)
  then show ?thesis using q1 q2 by (simp add: abs_less_iff field_simps)
qed

text \<open>
  Claim C5. For every sample \<open>x\<close> the 16-bit code stored is the truncation of the
  clamped sample scaled by 32768 when that is negative and by 32767 otherwise (the store
  does not wrap); \<open>-1\<close> gives \<open>-32768\<close> and \<open>1\<close> gives \<open>32767\<close>; the code is
  within one unit of the scaled value, and for \<open>x\<close> in \<open>[-1,1]\<close> reading the code
  back with the same scale is within one quantization step of \<open>x\<close> (\<open>1/32768\<close> on
  the negative side, \<open>1/32767\<close> on the other). Samples are reals: every finite
  float32 sample is one, and both products are exact in double precision.
\<close>

theorem pcm_conversion:
  "sint (toInt16 (clamp_and_scale x)) =
     js_trunc (if max (- 1) (min 1 x) < 0 then max (- 1) (min 1 x) * 32768
               else max (- 1) (min 1 x) * 32767)
   \<and> sint (toInt16 (clamp_and_scale (- 1))) = - 32768
   \<and> sint (toInt16 (clamp_and_scale 1)) = 32767
   \<and> \<bar>real_of_int (sint (toInt16 (clamp_and_scale x))) - clamp_and_scale x\<bar> < 1
   \<and> (- 1 \<le> x \<and> x < 0 \<longrightarrow> \<bar>pcmToFloat (toInt16 (clamp_and_scale x)) - x\<bar> < 1 / 32768)
   \<and> (0 \<le> x \<and> x \<le> 1 \<longrightarrow> \<bar>pcmToFloat (toInt16 (clamp_and_scale x)) - x\<bar> < 1 / 32767)"
proof -
  have a: "sint (toInt16 (clamp_and_scale x)) =
     js_trunc (if max (- 1) (min 1 x) < 0 then max (- 1) (min 1 x) * 32768
               else max (- 1) (min 1 x) * 32767)"
    using sint_toInt16 [of x] unfolding clamp_and_scale_def Let_def .
  have b: "sint (toInt16 (clamp_and_scale (- 1))) = - 32768"
    by (simp add: toInt16_def clamp_and_scale_def js_trunc_def)
  have c: "sint (toInt16 (clamp_and_scale 1)) = 32767"
    by (simp add: toInt16_def clamp_and_scale_def js_trunc_def)
  have d: "\<bar>real_of_int (sint (toInt16 (clamp_and_scale x))) - clamp_and_scale x\<bar> < 1"
    by (simp only: sint_toInt16 js_trunc_error)
  show ?thesis using a b c d roundtrip_neg [of x] roundtrip_nonneg [of x] by blast
qed

theorem pcm_conversion_witness:
  "(- 1 \<le> (- 1 / 2 :: real) \<and> (- 1 / 2 :: real) < 0)
   \<and> \<bar>pcmToFloat (toInt16 (clamp_and_scale (- 1 / 2))) - (- 1 / 2)\<bar> < 1 / 32768
   \<and> (0 \<le> (1 / 3 :: real) \<and> (1 / 3 :: real) \<le> 1)
   \<and> \<bar>pcmToFloat (toInt16 (clamp_and_scale (1 / 3))) - 1 / 3\<bar> < 1 / 32767
   \<and> sint (toInt16 (clamp_and_scale (1 / 3))) = 10922"
proof -
  have "sint (toInt16 (clamp_and_scale (1 / 3))) = 10922"
    by (simp add: toInt16_def clamp_and_scale_def js_trunc_def)
  then show ?thesis
    using pcm_conversion [of "- 1 / 2"] pcm_conversion [of "1 / 3"] by simp
qed

section \<open>The tool handler: properties\<close>

lemma executeTool_result_indep:
  "fst (executeTool h systemState name args s) = fst (executeTool h systemState name args t)"
  by (simp add: executeTool_def Let_def split: Battery.splits)

lemma executeTool_logs:
  "logs (snd (executeTool h systemState name args s)) =
     logs s @ toolLog h name args (fst (executeTool h systemState name args s))"
  by (simp add: executeTool_def Let_def addLog_def setSystemState_def toolLog_def
        split: Battery.splits)

lemma executeTool_frame:
  "nextStartTime (snd (executeTool h systemState name args s)) = nextStartTime s"
  "audioSources (snd (executeTool h systemState name args s)) = audioSources s"
  "audioCalls (snd (executeTool h systemState name args s)) = audioCalls s"
  "sourceCount (snd (executeTool h systemState name args s)) = sourceCount s"
  "toolResponses (snd (executeTool h systemState name args s)) = toolResponses s"
  "currentInputTranscription (snd (executeTool h systemState name args s)) =
     currentInputTranscription s"
  "currentOutputTranscription (snd (executeTool h systemState name args s)) =
     currentOutputTranscription s"
  "connectionState (snd (executeTool h systemState name args s)) = connectionState s"
  by (simp_all add: executeTool_def Let_def addLog_def setSystemState_def
        split: Battery.splits)

lemma executeTool_batteryLevel:
  "batteryLevel (device (snd (executeTool h systemState name args s))) =
     batteryLevel (device s)"
  by (simp add: executeTool_def Let_def addLog_def setSystemState_def
        split: Battery.splits)


text \<open>
  Claim C7. A request whose name is none of the six registered tools leaves the device
  state (and everything but the log) as it was and returns the generic result
  \<open>{success: true}\<close>; the handler has no failing outcome.
\<close>

theorem unknown_tool:
  "name \<notin> set controlPhoneTools \<Longrightarrow>
     executeTool h systemState name args s =
       (JObj [(''success'', JBool True)],
        s\<lparr>logs := logs s @ toolLog h name args (JObj [(''success'', JBool True)])\<rparr>)
     \<and> device (snd (executeTool h systemState name args s)) = device s"
  by (simp add: executeTool_def controlPhoneTools_def Let_def addLog_def toolLog_def)

theorem unknown_tool_witness:
  "''selfDestruct'' \<notin> set controlPhoneTools
   \<and> fst (executeTool plainHost App_systemState ''selfDestruct'' [] (useLiveSession App_systemState))
       = JObj [(''success'', JBool True)]
   \<and> device (snd (executeTool plainHost App_systemState ''selfDestruct'' []
        (useLiveSession App_systemState))) = App_systemState"
proof -
  have h: "''selfDestruct'' \<notin> set controlPhoneTools"
    by (simp add: controlPhoneTools_def)
  show ?thesis
    using h unknown_tool [OF h, of plainHost App_systemState "[]" "useLiveSession App_systemState"]
    by (simp add: useLiveSession_def)
qed

text \<open>
  Claim C8. With no battery sensor, or with a sensor whose query fails, \<open>checkBattery\<close>
  returns the cached \<open>batteryLevel\<close> and leaves the device state as it was; the
  failure is caught inside the handler. The handler reads the level from the snapshot it
  closes over; no operation ever writes \<open>batteryLevel\<close> (lemmas
  \<open>onmessage_batteryLevel\<close> and \<open>lifecycle_device\<close> below), so the snapshot and the
  live cell agree on it.
\<close>

theorem checkBattery_fallback:
  "getBattery h = NoSensor \<or> getBattery h = SensorFails \<Longrightarrow>
   batteryLevel systemState = batteryLevel (device s) \<Longrightarrow>
     executeTool h systemState ''checkBattery'' args s =
       (JObj [(''level'', JNum (batteryLevel (device s)))],
        s\<lparr>logs := logs s @
             toolLog h ''checkBattery'' args (JObj [(''level'', JNum (batteryLevel (device s)))])\<rparr>)
     \<and> device (snd (executeTool h systemState ''checkBattery'' args s)) = device s"
  by (auto simp add: executeTool_def Let_def addLog_def toolLog_def)

theorem checkBattery_fallback_witness:
  "(getBattery plainHost = NoSensor \<or> getBattery plainHost = SensorFails)
   \<and> batteryLevel App_systemState = batteryLevel (device (useLiveSession App_systemState))
   \<and> fst (executeTool plainHost App_systemState ''checkBattery'' []
            (useLiveSession App_systemState)) = JObj [(''level'', JNum 84)]
   \<and> device (snd (executeTool plainHost App_systemState ''checkBattery'' []
            (useLiveSession App_systemState))) = App_systemState
   \<and> (getBattery (plainHost\<lparr>getBattery := SensorFails\<rparr>) = NoSensor
        \<or> getBattery (plainHost\<lparr>getBattery := SensorFails\<rparr>) = SensorFails)
   \<and> fst (executeTool (plainHost\<lparr>getBattery := SensorFails\<rparr>) App_systemState
            ''checkBattery'' [] (useLiveSession App_systemState)) = JObj [(''level'', JNum 84)]"
proof -
  have a: "getBattery plainHost = NoSensor \<or> getBattery plainHost = SensorFails"
    by (simp add: plainHost_def)
  have a': "getBattery (plainHost\<lparr>getBattery := SensorFails\<rparr>) = NoSensor
        \<or> getBattery (plainHost\<lparr>getBattery := SensorFails\<rparr>) = SensorFails"
    by simp
  have b: "batteryLevel App_systemState = batteryLevel (device (useLiveSession App_systemState))"
    by (simp add: useLiveSession_def)
  show ?thesis
    using a a' b checkBattery_fallback [OF a b, of "[]"] checkBattery_fallback [OF a' b, of "[]"]
    by (simp add: useLiveSession_def App_systemState_def)
qed

section \<open>The blocks of onmessage: what each one touches\<close>

lemma forFunctionCalls_responses:
  "fst (forFunctionCalls h systemState fcs acc s) = acc @ map (respond h systemState s0) fcs"
proof (induction fcs arbitrary: acc s)
  case Nil
  then show ?case by simp
next
  case (Cons fc fcs)
  have "fst (executeTool h systemState (fc_name fc) (fc_args fc) s) =
        fst (executeTool h systemState (fc_name fc) (fc_args fc) s0)"
    by (rule executeTool_result_indep)
  then show ?case
    by (simp add: Cons.IH split_beta Let_def respond_def)
qed

lemma forFunctionCalls_state:
  "snd (forFunctionCalls h systemState fcs acc s) =
     fold (\<lambda>fc st. snd (executeTool h systemState (fc_name fc) (fc_args fc) st)) fcs s"
  by (induction fcs arbitrary: acc s) (simp_all add: split_beta Let_def)

lemma fold_executeTool_logs:
  "logs (fold (\<lambda>fc st. snd (executeTool h systemState (fc_name fc) (fc_args fc) st)) fcs s) =
     logs s @ concat (map (\<lambda>fc. toolLog h (fc_name fc) (fc_args fc)
        (fst (executeTool h systemState (fc_name fc) (fc_args fc) s0))) fcs)"
proof (induction fcs arbitrary: s)
  case Nil
  then show ?case by simp
next
  case (Cons fc fcs)
  have "fst (executeTool h systemState (fc_name fc) (fc_args fc) s) =
        fst (executeTool h systemState (fc_name fc) (fc_args fc) s0)"
    by (rule executeTool_result_indep)
  then show ?case
    by (simp add: Cons.IH executeTool_logs)
qed

lemma fold_executeTool_frame:
  "nextStartTime (fold (\<lambda>fc st. snd (executeTool h systemState (fc_name fc) (fc_args fc) st)) fcs s) = nextStartTime s"
  "audioSources (fold (\<lambda>fc st. snd (executeTool h systemState (fc_name fc) (fc_args fc) st)) fcs s) = audioSources s"
  "audioCalls (fold (\<lambda>fc st. snd (executeTool h systemState (fc_name fc) (fc_args fc) st)) fcs s) = audioCalls s"
  "sourceCount (fold (\<lambda>fc st. snd (executeTool h systemState (fc_name fc) (fc_args fc) st)) fcs s) = sourceCount s"
  "toolResponses (fold (\<lambda>fc st. snd (executeTool h systemState (fc_name fc) (fc_args fc) st)) fcs s) = toolResponses s"
  "currentInputTranscription (fold (\<lambda>fc st. snd (executeTool h systemState (fc_name fc) (fc_args fc) st)) fcs s) = currentInputTranscription s"
  "currentOutputTranscription (fold (\<lambda>fc st. snd (executeTool h systemState (fc_name fc) (fc_args fc) st)) fcs s) = currentOutputTranscription s"
  "connectionState (fold (\<lambda>fc st. snd (executeTool h systemState (fc_name fc) (fc_args fc) st)) fcs s) = connectionState s"
  by (induction fcs arbitrary: s) (simp_all add: executeTool_frame)


lemma handleFunctionCalls_Some:
  "toolCall m = Some fcs \<Longrightarrow>
   handleFunctionCalls h systemState m s =
     (fold (\<lambda>fc st. snd (executeTool h systemState (fc_name fc) (fc_args fc) st)) fcs s)
       \<lparr>toolResponses := toolResponses s @ [map (respond h systemState s0) fcs]\<rparr>"
  using forFunctionCalls_responses [of h systemState fcs "[]" s s0]
        forFunctionCalls_state [of h systemState fcs "[]" s]
  by (simp add: handleFunctionCalls_def split_beta Let_def fold_executeTool_frame)

lemma handleFunctionCalls_frame:
  "currentInputTranscription (handleFunctionCalls h systemState m s) = currentInputTranscription s
   \<and> currentOutputTranscription (handleFunctionCalls h systemState m s) = currentOutputTranscription s
   \<and> nextStartTime (handleFunctionCalls h systemState m s) = nextStartTime s
   \<and> audioSources (handleFunctionCalls h systemState m s) = audioSources s
   \<and> audioCalls (handleFunctionCalls h systemState m s) = audioCalls s
   \<and> sourceCount (handleFunctionCalls h systemState m s) = sourceCount s
   \<and> connectionState (handleFunctionCalls h systemState m s) = connectionState s"
proof (cases "toolCall m")
  case None
  then show ?thesis by (simp add: handleFunctionCalls_def)
next
  case (Some fcs)
  show ?thesis
    by (simp add: handleFunctionCalls_Some [OF Some, where ?s0.0 = s] fold_executeTool_frame)
qed

lemma toolLog_roles: "\<forall>x\<in>set (toolLog h name args result). log_role x = System"
  by (simp add: toolLog_def)

lemma handleFunctionCalls_logs_system:
  "\<exists>rest. logs (handleFunctionCalls h systemState m s) = logs s @ rest
      \<and> (\<forall>x\<in>set rest. log_role x = System)"
proof (cases "toolCall m")
  case None
  then show ?thesis by (simp add: handleFunctionCalls_def)
next
  case (Some fcs)
  have "\<forall>x\<in>set (concat (map (\<lambda>fc. toolLog h (fc_name fc) (fc_args fc)
          (fst (executeTool h systemState (fc_name fc) (fc_args fc) s))) fcs)). log_role x = System"
    using toolLog_roles by auto
  then show ?thesis
    by (simp add: handleFunctionCalls_Some [OF Some, where ?s0.0 = s]
          fold_executeTool_logs [where ?s0.0 = s])
qed

lemma handleTranscriptions_frame:
  "nextStartTime (handleTranscriptions m s) = nextStartTime s"
  "audioSources (handleTranscriptions m s) = audioSources s"
  "audioCalls (handleTranscriptions m s) = audioCalls s"
  "sourceCount (handleTranscriptions m s) = sourceCount s"
  "toolResponses (handleTranscriptions m s) = toolResponses s"
  "device (handleTranscriptions m s) = device s"
  "connectionState (handleTranscriptions m s) = connectionState s"
  by (simp_all add: handleTranscriptions_def Let_def addLog_def split: option.splits)


lemma handleTranscriptions_turnComplete:
  "turnComplete m \<Longrightarrow>
   currentInputTranscription (handleTranscriptions m s) = []
   \<and> currentOutputTranscription (handleTranscriptions m s) = []
   \<and> logs (handleTranscriptions m s) =
       logs s @
       (let u = (case inputTranscription m of None \<Rightarrow> currentInputTranscription s
                 | Some t \<Rightarrow> appendText (currentInputTranscription s) t)
        in if u \<noteq> [] then [\<lparr>log_role = User, log_text = u\<rparr>] else []) @
       (let v = (case outputTranscription m of None \<Rightarrow> currentOutputTranscription s
                 | Some t \<Rightarrow> appendText (currentOutputTranscription s) t)
        in if v \<noteq> [] then [\<lparr>log_role = Model, log_text = v\<rparr>] else [])"
  by (simp add: handleTranscriptions_def Let_def addLog_def split: option.splits)

lemma handleAudioOutput_None: "audio m = None \<Longrightarrow> handleAudioOutput now m s = Inr s"
  by (simp add: handleAudioOutput_def)

lemma handleAudioOutput_Decoded:
  "audio m = Some (Decoded d) \<Longrightarrow>
   handleAudioOutput now m s =
     Inr (s\<lparr>sourceCount := Suc (sourceCount s),
            audioCalls := audioCalls s @ [Start (sourceCount s) (max (nextStartTime s) now) d],
            nextStartTime := max (nextStartTime s) now + d,
            audioSources := (if sourceCount s \<in> set (audioSources s) then audioSources s
                             else audioSources s @ [sourceCount s])\<rparr>)"
  by (simp add: handleAudioOutput_def Let_def)

lemma handleAudioOutput_Undecodable:
  "audio m = Some Undecodable \<Longrightarrow> handleAudioOutput now m s = Inl DecodeError"
  by (simp add: handleAudioOutput_def)

lemma handleAudioOutput_total:
  "audio m \<noteq> Some Undecodable \<Longrightarrow>
   \<exists>s2. handleAudioOutput now m s = Inr s2 \<and> logs s2 = logs s \<and> device s2 = device s
      \<and> toolResponses s2 = toolResponses s
      \<and> currentInputTranscription s2 = currentInputTranscription s
      \<and> currentOutputTranscription s2 = currentOutputTranscription s
      \<and> connectionState s2 = connectionState s"
  by (cases "audio m") (auto simp: handleAudioOutput_def Let_def split: AudioChunk.splits)

lemma handleInterruptions_frame:
  "device (handleInterruptions m s) = device s"
  "toolResponses (handleInterruptions m s) = toolResponses s"
  "sourceCount (handleInterruptions m s) = sourceCount s"
  "currentInputTranscription (handleInterruptions m s) = currentInputTranscription s"
  "currentOutputTranscription (handleInterruptions m s) = currentOutputTranscription s"
  "connectionState (handleInterruptions m s) = connectionState s"
  by (simp_all add: handleInterruptions_def Let_def addLog_def)


lemma handleInterruptions_logs_system:
  "\<exists>rest. logs (handleInterruptions m s) = logs s @ rest \<and> (\<forall>x\<in>set rest. log_role x = System)"
  by (simp add: handleInterruptions_def Let_def addLog_def)

lemma onmessage_batteryLevel:
  "batteryLevel (device (snd (onmessage h systemState now m s))) = batteryLevel (device s)"
proof -
  have f: "batteryLevel (device (fold (\<lambda>fc st.
        snd (executeTool h systemState (fc_name fc) (fc_args fc) st)) fcs t)) =
      batteryLevel (device t)" for fcs t
    by (induction fcs arbitrary: t) (simp_all add: executeTool_batteryLevel)
  have g: "batteryLevel (device (handleFunctionCalls h systemState m t)) =
      batteryLevel (device t)" for t
  proof (cases "toolCall m")
    case None
    then show ?thesis by (simp add: handleFunctionCalls_def)
  next
    case (Some fcs)
    show ?thesis by (simp add: handleFunctionCalls_Some [OF Some, where ?s0.0 = t] f)
  qed
  show ?thesis
  proof (cases "audio m = Some Undecodable")
    case True
    then show ?thesis
      by (simp add: onmessage_def Let_def handleAudioOutput_Undecodable
            handleTranscriptions_frame)
  next
    case False
    obtain s2 where s2: "handleAudioOutput now m (handleTranscriptions m s) = Inr s2"
        "device s2 = device (handleTranscriptions m s)"
      using handleAudioOutput_total [OF False, of now "handleTranscriptions m s"] by blast
    show ?thesis
      by (simp add: onmessage_def Let_def s2 g handleInterruptions_frame
            handleTranscriptions_frame)
  qed
qed

lemma lifecycle_device:
  "device (connect init s) = device s"
  "device (disconnect s) = device s"
  "device (onopen s) = device s"
  "device (onclose s) = device s"
  "device (onerror msg s) = device s"
  "device (onended i s) = device s"
  by (simp_all add: connect_def catchInit_def disconnect_def onopen_def onclose_def
        onerror_def onended_def addLog_def Let_def split: Init.splits)

section \<open>Tool-call batches\<close>



text \<open>
  Claim C4, as amended. The batch with the single request \<open>toggleFlashlight\<close>,
  id \<open>1\<close>, \<open>state: true\<close> sets \<open>flashlight\<close> to true and sends one response
  batch with one entry of that id and name, whose \<open>response\<close> field is the object
  \<open>{result: {status: "Flashlight turned ON"}}\<close>: the tool result is wrapped under
  the key \<open>result\<close>.
\<close>

theorem flashlight_scenario:
  "(case onmessage h systemState now
          (emptyMessage\<lparr>toolCall := Some
             [\<lparr>fc_id = ''1'', fc_name = ''toggleFlashlight'',
               fc_args = [(''state'', JBool True)]\<rparr>]\<rparr>) s of
      (e, s') \<Rightarrow>
        e = None
        \<and> flashlight (device s') = JBool True
        \<and> toolResponses s' = toolResponses s @
            [[\<lparr>fr_id = ''1'', fr_name = ''toggleFlashlight'',
               fr_response =
                 JObj [(''result'', JObj [(''status'', JStr ''Flashlight turned ON'')])]\<rparr>]])"
  by (simp add: onmessage_def emptyMessage_def handleTranscriptions_def handleAudioOutput_def
        handleInterruptions_def handleFunctionCalls_def executeTool_def Let_def addLog_def
        setSystemState_def getProp_def)

text \<open>
  Claim C4 as stated fails: the \<open>response\<close> field is not the bare object
  \<open>{status: "Flashlight turned ON"}\<close>.
\<close>

theorem flashlight_response_counterexample:
  "toolResponses (snd (onmessage plainHost App_systemState 0
          (emptyMessage\<lparr>toolCall := Some
             [\<lparr>fc_id = ''1'', fc_name = ''toggleFlashlight'',
               fc_args = [(''state'', JBool True)]\<rparr>]\<rparr>)
          (useLiveSession App_systemState))) \<noteq>
     [[\<lparr>fr_id = ''1'', fr_name = ''toggleFlashlight'',
        fr_response = JObj [(''status'', JStr ''Flashlight turned ON'')]\<rparr>]]"
  by (simp add: onmessage_def emptyMessage_def handleTranscriptions_def handleAudioOutput_def
        handleInterruptions_def handleFunctionCalls_def executeTool_def Let_def addLog_def
        setSystemState_def getProp_def useLiveSession_def)

section \<open>Transcript assembly\<close>

text \<open>
  Claim C6. On a message with the turn-complete flag, the user buffer (with the
  fragment of this message, if any) is appended to the log as one \<open>User\<close> entry
  exactly when it is non-empty, then the model buffer as one \<open>Model\<close> entry exactly
  when it is non-empty, user before model; both buffers are empty afterwards; whatever
  else the message makes the handler log has role \<open>System\<close>. With both buffers
  empty nothing is flushed, and the flush itself never raises: the handler ends with an
  exception only on an undecodable audio payload.
\<close>

theorem turn_complete_flush:
  "turnComplete m \<Longrightarrow>
   (case onmessage h systemState now m s of
      (e, s') \<Rightarrow>
        currentInputTranscription s' = []
        \<and> currentOutputTranscription s' = []
        \<and> (\<exists>rest.
              logs s' =
                logs s @
                (let u = (case inputTranscription m of None \<Rightarrow> currentInputTranscription s
                          | Some t \<Rightarrow> appendText (currentInputTranscription s) t)
                 in if u \<noteq> [] then [\<lparr>log_role = User, log_text = u\<rparr>] else []) @
                (let v = (case outputTranscription m of None \<Rightarrow> currentOutputTranscription s
                          | Some t \<Rightarrow> appendText (currentOutputTranscription s) t)
                 in if v \<noteq> [] then [\<lparr>log_role = Model, log_text = v\<rparr>] else []) @
                rest
              \<and> (\<forall>x\<in>set rest. log_role x = System))
        \<and> (audio m \<noteq> Some Undecodable \<longrightarrow> e = None))"
proof -
  assume tc: "turnComplete m"
  define s1 where "s1 = handleTranscriptions m s"
  note t = handleTranscriptions_turnComplete [OF tc, of s, folded s1_def]
  show ?thesis
  proof (cases "audio m = Some Undecodable")
    case True
    have "onmessage h systemState now m s = (Some DecodeError, s1)"
      by (simp add: onmessage_def Let_def s1_def handleAudioOutput_Undecodable [OF True])
    then show ?thesis using t True by simp
  next
    case False
    obtain s2 where s2: "handleAudioOutput now m s1 = Inr s2" "logs s2 = logs s1"
        "currentInputTranscription s2 = currentInputTranscription s1"
        "currentOutputTranscription s2 = currentOutputTranscription s1"
      using handleAudioOutput_total [OF False, of now s1] by blast
    define s3 where "s3 = handleInterruptions m s2"
    define s4 where "s4 = handleFunctionCalls h systemState m s3"
    have om: "onmessage h systemState now m s = (None, s4)"
      using s2(1) by (simp add: onmessage_def Let_def s1_def s3_def s4_def)
    obtain r1 where r1: "logs s3 = logs s2 @ r1" "\<forall>x\<in>set r1. log_role x = System"
      using handleInterruptions_logs_system [of m s2] by (auto simp: s3_def)
    obtain r2 where r2: "logs s4 = logs s3 @ r2" "\<forall>x\<in>set r2. log_role x = System"
      using handleFunctionCalls_logs_system [of h systemState m s3] by (auto simp: s4_def)
    have b1: "currentInputTranscription s4 = []"
      by (simp add: s4_def s3_def handleFunctionCalls_frame handleInterruptions_frame s2 t)
    have b2: "currentOutputTranscription s4 = []"
      by (simp add: s4_def s3_def handleFunctionCalls_frame handleInterruptions_frame s2 t)
    have r: "\<forall>x\<in>set (r1 @ r2). log_role x = System"
      using r1(2) r2(2) by auto
    have lg: "logs s4 = logs s1 @ (r1 @ r2)"
      by (simp add: r2(1) r1(1) s2(2))
    show ?thesis
      unfolding om using b1 b2 r lg t
      by (simp only: prod.case append_assoc) blast
  qed
qed

theorem turn_complete_flush_witness:
  "turnComplete (emptyMessage\<lparr>turnComplete := True\<rparr>)
   \<and> logs (snd (onmessage plainHost App_systemState 0 (emptyMessage\<lparr>turnComplete := True\<rparr>)
               (useLiveSession App_systemState))) = []
   \<and> fst (onmessage plainHost App_systemState 0 (emptyMessage\<lparr>turnComplete := True\<rparr>)
               (useLiveSession App_systemState)) = None
   \<and> turnComplete (emptyMessage\<lparr>turnComplete := True, inputTranscription := Some (Some ''hi'')\<rparr>)
   \<and> logs (snd (onmessage plainHost App_systemState 0
               (emptyMessage\<lparr>turnComplete := True, inputTranscription := Some (Some ''hi'')\<rparr>)
               (useLiveSession App_systemState))) = [\<lparr>log_role = User, log_text = ''hi''\<rparr>]"
proof -
  have a: "turnComplete (emptyMessage\<lparr>turnComplete := True\<rparr>)" by simp
  have b: "turnComplete (emptyMessage\<lparr>turnComplete := True,
             inputTranscription := Some (Some ''hi'')\<rparr>)" by simp
  have c: "logs (snd (onmessage plainHost App_systemState 0
               (emptyMessage\<lparr>turnComplete := True, inputTranscription := Some (Some ''hi'')\<rparr>)
               (useLiveSession App_systemState))) = [\<lparr>log_role = User, log_text = ''hi''\<rparr>]"
    by (simp add: onmessage_def emptyMessage_def handleTranscriptions_def handleAudioOutput_def
        handleInterruptions_def handleFunctionCalls_def Let_def addLog_def appendText_def
        useLiveSession_def)
  have d: "logs (snd (onmessage plainHost App_systemState 0 (emptyMessage\<lparr>turnComplete := True\<rparr>)
               (useLiveSession App_systemState))) = []"
    by (simp add: onmessage_def emptyMessage_def handleTranscriptions_def handleAudioOutput_def
        handleInterruptions_def handleFunctionCalls_def Let_def addLog_def appendText_def
        useLiveSession_def)
  have e: "audio (emptyMessage\<lparr>turnComplete := True\<rparr>) \<noteq> Some Undecodable"
    by (simp add: emptyMessage_def)
  show ?thesis
    using turn_complete_flush [OF a, where h = plainHost and systemState = App_systemState
        and now = 0 and s = "useLiveSession App_systemState"] a b c d e
    by (simp add: split_beta)
qed

section \<open>Playback scheduling\<close>



lemma gaplessFrom_nth:
  "i < length ds \<Longrightarrow>
   gaplessFrom n c ds ! i = Start (n + i) (c + sum_list (take i ds)) (ds ! i)"
proof (induction ds arbitrary: n c i)
  case Nil
  then show ?case by simp
next
  case (Cons d ds)
  show ?case
  proof (cases i)
    case 0
    then show ?thesis by simp
  next
    case (Suc j)
    then have "j < length ds" using Cons.prems by simp
    from Cons.IH [OF this, of "Suc n" "c + d"] Suc show ?thesis
      by (simp add: add.assoc)
  qed
qed

lemma onmessage_chunk_started:
  "audio m = Some (Decoded d) \<Longrightarrow>
   fst (onmessage h systemState now m s) = None
   \<and> (\<exists>rest. audioCalls (snd (onmessage h systemState now m s)) =
         audioCalls s @ Start (sourceCount s) (max (nextStartTime s) now) d # rest)"
  by (simp add: onmessage_def Let_def handleAudioOutput_Decoded handleFunctionCalls_frame
        handleInterruptions_def handleTranscriptions_frame addLog_def)

lemma onmessage_chunk:
  "audio m = Some (Decoded d) \<Longrightarrow> \<not> interrupted m \<Longrightarrow>
   fst (onmessage h systemState now m s) = None
   \<and> audioCalls (snd (onmessage h systemState now m s)) =
       audioCalls s @ [Start (sourceCount s) (max (nextStartTime s) now) d]
   \<and> nextStartTime (snd (onmessage h systemState now m s)) = max (nextStartTime s) now + d
   \<and> sourceCount (snd (onmessage h systemState now m s)) = Suc (sourceCount s)"
  by (simp add: onmessage_def Let_def handleAudioOutput_Decoded handleFunctionCalls_frame
        handleInterruptions_def handleTranscriptions_frame)

lemma onmessage_no_chunk:
  "audio m = None \<Longrightarrow> \<not> interrupted m \<Longrightarrow>
   fst (onmessage h systemState now m s) = None
   \<and> audioCalls (snd (onmessage h systemState now m s)) = audioCalls s
   \<and> nextStartTime (snd (onmessage h systemState now m s)) = nextStartTime s
   \<and> sourceCount (snd (onmessage h systemState now m s)) = sourceCount s"
  by (simp add: onmessage_def Let_def handleAudioOutput_None handleFunctionCalls_frame
        handleInterruptions_def handleTranscriptions_frame)

lemma onmessages_schedule:
  "\<forall>(t, m)\<in>set ms. t = t0 \<and> \<not> interrupted m \<and> audio m \<noteq> Some Undecodable \<Longrightarrow>
   \<forall>d\<in>set (chunkDurations ms). 0 \<le> d \<Longrightarrow>
   audioCalls (onmessages h systemState ms s) =
     audioCalls s @
     gaplessFrom (sourceCount s) (max (nextStartTime s) t0) (chunkDurations ms)"
proof (induction ms arbitrary: s)
  case Nil
  then show ?case by simp
next
  case (Cons tm ms)
  obtain t m where tm: "tm = (t, m)" by (cases tm)
  have hd: "t = t0" "\<not> interrupted m" "audio m \<noteq> Some Undecodable"
    using Cons.prems(1) by (auto simp: tm)
  have tl: "\<forall>(t, m)\<in>set ms. t = t0 \<and> \<not> interrupted m \<and> audio m \<noteq> Some Undecodable"
    using Cons.prems(1) by simp
  define s' where "s' = snd (onmessage h systemState t0 m s)"
  show ?case
  proof (cases "audio m")
    case None
    have ds: "\<forall>d\<in>set (chunkDurations ms). 0 \<le> d"
      using Cons.prems(2) by (simp add: tm None)
    note st = onmessage_no_chunk [OF None hd(2), of h systemState t0 s, folded s'_def]
    show ?thesis
      using Cons.IH [OF tl ds, of s'] st
      by (simp add: tm hd(1) None s'_def [symmetric])
  next
    case (Some c)
    then obtain d where d: "audio m = Some (Decoded d)"
      using hd(3) by (cases c) auto
    have d0: "0 \<le> d" and ds: "\<forall>d\<in>set (chunkDurations ms). 0 \<le> d"
      using Cons.prems(2) by (simp_all add: tm d)
    note st = onmessage_chunk [OF d hd(2), of h systemState t0 s, folded s'_def]
    have mx: "max (nextStartTime s') t0 = max (nextStartTime s) t0 + d"
      using st d0 by (simp add: max_def)
    show ?thesis
      using Cons.IH [OF tl ds, of s'] st mx
      by (simp add: tm hd(1) d s'_def [symmetric])
  qed
qed

text \<open>
  Claim C1, as amended. Every decoded chunk is started at
  \<open>max nextStartTime now\<close>, and (when the message does not also interrupt)
  \<open>nextStartTime\<close> is afterwards that start plus the chunk's duration. For messages
  all handled while the output clock reads \<open>t0\<close>, none interrupting, with chunk
  durations \<open>d1..dn\<close> (none negative), the sources are started at
  \<open>c, c + d1, c + d1 + d2, ...\<close> where \<open>c\<close> is the larger of \<open>t0\<close> and the
  cursor before the first chunk: each starts where the one before it ends. When the
  cursor is not ahead of the clock, \<open>c = t0\<close>. Times are reals; handlers run one
  after the other.
\<close>

theorem gapless_schedule:
  "(audio m = Some (Decoded d) \<longrightarrow>
      fst (onmessage h systemState now m s) = None
      \<and> (\<exists>rest. audioCalls (snd (onmessage h systemState now m s)) =
            audioCalls s @ Start (sourceCount s) (max (nextStartTime s) now) d # rest)
      \<and> (\<not> interrupted m \<longrightarrow>
            audioCalls (snd (onmessage h systemState now m s)) =
              audioCalls s @ [Start (sourceCount s) (max (nextStartTime s) now) d]
            \<and> nextStartTime (snd (onmessage h systemState now m s)) =
                max (nextStartTime s) now + d))
   \<and> ((\<forall>(t, m)\<in>set ms. t = t0 \<and> \<not> interrupted m \<and> audio m \<noteq> Some Undecodable)
        \<and> (\<forall>d\<in>set (chunkDurations ms). 0 \<le> d) \<longrightarrow>
      audioCalls (onmessages h systemState ms s) =
        audioCalls s @
        gaplessFrom (sourceCount s) (max (nextStartTime s) t0) (chunkDurations ms)
      \<and> (nextStartTime s \<le> t0 \<longrightarrow>
          audioCalls (onmessages h systemState ms s) =
            audioCalls s @ gaplessFrom (sourceCount s) t0 (chunkDurations ms)))"
proof (intro conjI impI)
  assume a: "audio m = Some (Decoded d)"
  show "fst (onmessage h systemState now m s) = None"
    and "\<exists>rest. audioCalls (snd (onmessage h systemState now m s)) =
            audioCalls s @ Start (sourceCount s) (max (nextStartTime s) now) d # rest"
    using onmessage_chunk_started [OF a, of h systemState now s] by simp_all
  assume "\<not> interrupted m"
  then show "audioCalls (snd (onmessage h systemState now m s)) =
          audioCalls s @ [Start (sourceCount s) (max (nextStartTime s) now) d]"
    and "nextStartTime (snd (onmessage h systemState now m s)) = max (nextStartTime s) now + d"
    using onmessage_chunk [OF a, of h systemState now s] by simp_all
next
  assume a: "(\<forall>(t, m)\<in>set ms. t = t0 \<and> \<not> interrupted m \<and> audio m \<noteq> Some Undecodable)
        \<and> (\<forall>d\<in>set (chunkDurations ms). 0 \<le> d)"
  then show g: "audioCalls (onmessages h systemState ms s) =
        audioCalls s @
        gaplessFrom (sourceCount s) (max (nextStartTime s) t0) (chunkDurations ms)"
    using onmessages_schedule [of ms t0 h systemState s] by blast
  assume "nextStartTime s \<le> t0"
  then show "audioCalls (onmessages h systemState ms s) =
            audioCalls s @ gaplessFrom (sourceCount s) t0 (chunkDurations ms)"
    using g by (simp add: max_def)
qed

theorem gapless_schedule_witness:
  "audio (emptyMessage\<lparr>audio := Some (Decoded (1 / 2))\<rparr>) = Some (Decoded (1 / 2))
   \<and> \<not> interrupted (emptyMessage\<lparr>audio := Some (Decoded (1 / 2))\<rparr>)
   \<and> nextStartTime (snd (onmessage plainHost App_systemState 10
         (emptyMessage\<lparr>audio := Some (Decoded (1 / 2))\<rparr>) (useLiveSession App_systemState))) =
       21 / 2
   \<and> chunkDurations [(10, emptyMessage\<lparr>audio := Some (Decoded (1 / 2))\<rparr>),
                    (10, emptyMessage\<lparr>audio := Some (Decoded (1 / 2))\<rparr>)] = [1 / 2, 1 / 2]
   \<and> nextStartTime (useLiveSession App_systemState) \<le> 10
   \<and> audioCalls (onmessages plainHost App_systemState
         [(10, emptyMessage\<lparr>audio := Some (Decoded (1 / 2))\<rparr>),
          (10, emptyMessage\<lparr>audio := Some (Decoded (1 / 2))\<rparr>)]
         (useLiveSession App_systemState)) =
       [Start 0 10 (1 / 2), Start 1 (21 / 2) (1 / 2)]"
proof -
  define c where "c = emptyMessage\<lparr>audio := Some (Decoded (1 / 2))\<rparr>"
  define ms where "ms = [(10 :: real, c), (10, c)]"
  have c1: "audio c = Some (Decoded (1 / 2))" "\<not> interrupted c"
    by (simp_all add: c_def emptyMessage_def)
  have a: "\<forall>(t, m)\<in>set ms. t = 10 \<and> \<not> interrupted m \<and> audio m \<noteq> Some Undecodable"
    by (simp add: ms_def c1)
  have b: "\<forall>d\<in>set (chunkDurations ms). 0 \<le> d"
    by (simp add: ms_def c1)
  have i: "nextStartTime (useLiveSession App_systemState) \<le> 10"
    by (simp add: useLiveSession_def)
  have d: "chunkDurations ms = [1 / 2, 1 / 2]"
    by (simp add: ms_def c1)
  have e: "audioCalls (useLiveSession App_systemState) = []"
      "sourceCount (useLiveSession App_systemState) = 0"
      "nextStartTime (useLiveSession App_systemState) = 0"
    by (simp_all add: useLiveSession_def)
  show ?thesis
    using gapless_schedule [where ms = ms and ?t0.0 = 10 and h = plainHost and m = c
        and d = "1 / 2" and now = 10
        and systemState = App_systemState and s = "useLiveSession App_systemState"] a b i c1
    unfolding c_def [symmetric] ms_def [symmetric] d e
    by simp
qed

text \<open>
  Claim C1 as stated fails when the cursor is ahead of the clock: after a chunk of 5
  seconds scheduled at clock 0, two chunks of 1 second both handled at clock 1 are
  started at 5 and 6 (behind the audio already queued), not at 1 and 2.
\<close>

theorem gapless_schedule_counterexample:
  "audioCalls (onmessages plainHost App_systemState
       [(1, emptyMessage\<lparr>audio := Some (Decoded 1)\<rparr>),
        (1, emptyMessage\<lparr>audio := Some (Decoded 1)\<rparr>)]
       (snd (onmessage plainHost App_systemState 0 (emptyMessage\<lparr>audio := Some (Decoded 5)\<rparr>)
          (useLiveSession App_systemState)))) =
     [Start 0 0 5, Start 1 5 1, Start 2 6 1]
   \<and> audioCalls (onmessages plainHost App_systemState
       [(1, emptyMessage\<lparr>audio := Some (Decoded 1)\<rparr>),
        (1, emptyMessage\<lparr>audio := Some (Decoded 1)\<rparr>)]
       (snd (onmessage plainHost App_systemState 0 (emptyMessage\<lparr>audio := Some (Decoded 5)\<rparr>)
          (useLiveSession App_systemState)))) \<noteq>
     audioCalls (snd (onmessage plainHost App_systemState 0
          (emptyMessage\<lparr>audio := Some (Decoded 5)\<rparr>) (useLiveSession App_systemState))) @
     gaplessFrom 1 1 [1, 1]"
  by (simp add: onmessage_def emptyMessage_def handleTranscriptions_def handleAudioOutput_def
        handleInterruptions_def handleFunctionCalls_def Let_def useLiveSession_def)

section \<open>Session life cycle\<close>

text \<open>
  Claim C9, as amended. The transitions made by the transport callbacks (\<open>onopen\<close>
  to CONNECTED, \<open>onclose\<close> to DISCONNECTED, \<open>onerror\<close> to ERROR) and by the failure
  handler of \<open>connect\<close> (to ERROR) each append exactly one \<open>System\<close> entry to the
  log. The transition to CONNECTING made by \<open>connect\<close> and the transition to
  DISCONNECTED made by \<open>disconnect\<close> append nothing.
\<close>

theorem transition_logging:
  "(connectionState (onopen s) = CONNECTED
      \<and> logs (onopen s) =
          logs s @ [\<lparr>log_role = System, log_text = ''Link Established. System Online.''\<rparr>])
   \<and> (connectionState (onclose s) = DISCONNECTED
      \<and> logs (onclose s) = logs s @ [\<lparr>log_role = System, log_text = ''Link Terminated.''\<rparr>])
   \<and> (connectionState (onerror msg s) = ERROR
      \<and> logs (onerror msg s) =
          logs s @ [\<lparr>log_role = System, log_text = ''Error: '' @ interpolate msg\<rparr>])
   \<and> (connectionState (connect (ContextFails msg) s) = ERROR
      \<and> logs (connect (ContextFails msg) s) =
          logs s @ [\<lparr>log_role = System, log_text = ''Init Error: '' @ interpolate msg\<rparr>])
   \<and> (connectionState (connect (MicrophoneFails msg) s) = ERROR
      \<and> logs (connect (MicrophoneFails msg) s) =
          logs s @ [\<lparr>log_role = System, log_text = ''Init Error: '' @ interpolate msg\<rparr>])
   \<and> (connectionState (connect (LinkFails msg) s) = ERROR
      \<and> logs (connect (LinkFails msg) s) =
          logs s @ [\<lparr>log_role = System, log_text = ''Init Error: '' @ interpolate msg\<rparr>])
   \<and> (connectionState (connect InitOk s) = CONNECTING \<and> logs (connect InitOk s) = logs s)
   \<and> (connectionState (disconnect s) = DISCONNECTED \<and> logs (disconnect s) = logs s)"
  by (simp add: connect_def catchInit_def disconnect_def onopen_def onclose_def
        onerror_def addLog_def Let_def)

text \<open>
  Claim C9 as stated fails: from the initial state \<open>connect\<close> moves DISCONNECTED
  to CONNECTING with the log still empty, and \<open>disconnect\<close> moves CONNECTED to
  DISCONNECTED with the log as it was.
\<close>

theorem transition_logging_counterexample:
  "connectionState (useLiveSession App_systemState) = DISCONNECTED
   \<and> connectionState (connect InitOk (useLiveSession App_systemState)) = CONNECTING
   \<and> logs (connect InitOk (useLiveSession App_systemState)) = []
   \<and> connectionState (onopen (connect InitOk (useLiveSession App_systemState))) = CONNECTED
   \<and> connectionState (disconnect (onopen (connect InitOk (useLiveSession App_systemState))))
       = DISCONNECTED
   \<and> logs (disconnect (onopen (connect InitOk (useLiveSession App_systemState)))) =
       logs (onopen (connect InitOk (useLiveSession App_systemState)))"
  by (simp add: connect_def disconnect_def onopen_def addLog_def Let_def useLiveSession_def)

text \<open>
  Claim C10. \<open>disconnect\<close> leaves both transcript buffers and the log as they
  were; what was buffered is flushed by the first turn-complete of the next session
  (after \<open>connect\<close> and \<open>onopen\<close>), user entry before model entry.
\<close>

theorem disconnect_keeps_transcripts:
  "currentInputTranscription (disconnect s) = currentInputTranscription s
   \<and> currentOutputTranscription (disconnect s) = currentOutputTranscription s
   \<and> logs (disconnect s) = logs s
   \<and> logs (snd (onmessage h systemState now (emptyMessage\<lparr>turnComplete := True\<rparr>)
        (onopen (connect InitOk (disconnect s))))) =
       logs s @ [\<lparr>log_role = System, log_text = ''Link Established. System Online.''\<rparr>] @
       (if currentInputTranscription s \<noteq> []
        then [\<lparr>log_role = User, log_text = currentInputTranscription s\<rparr>] else []) @
       (if currentOutputTranscription s \<noteq> []
        then [\<lparr>log_role = Model, log_text = currentOutputTranscription s\<rparr>] else [])"
  by (simp add: connect_def disconnect_def onopen_def addLog_def Let_def onmessage_def
        emptyMessage_def handleTranscriptions_def handleAudioOutput_def
        handleInterruptions_def handleFunctionCalls_def)

end
